theory Spec2Isabelle
  imports Complex_Main "HOL-Library.Multiset" "HOL-Library.Char_ord" "HOL-Library.List_Lexorder"
    "HOL-Library.Log_Nat"
begin

section \<open>The calorie tracker backend (backend/backend.js)\<close>

text \<open>
  The backend is three Express handlers over one Mongoose collection of \<open>Day\<close> documents.
  The handlers are embedded as functions from the collection and the request body to the new
  collection and the HTTP response. What the handlers use of JavaScript (\<open>!x\<close>, \<open>isNaN(x)\<close>,
  \<open>Number(x)\<close>) and of Mongoose (\<open>find().sort\<close>, \<open>findOneAndUpdate\<close> with \<open>upsert\<close>
  and \<open>new\<close>) is embedded from the language and library definitions.

  Conventions of the embedding:
  \<^item> a JavaScript number is an IEEE double: \<open>NaN\<close>, \<open>Infinity\<close>, \<open>-Infinity\<close>, or a finite
    double given by its exact rational value; every operation that produces a number rounds
    it to the nearest double, ties to even, as \<open>toDouble\<close> below; the sign of zero is not
    represented; the store keeps the totals as doubles;
  \<^item> a string is a list of 8-bit characters, compared by character code;
  \<^item> the \<open>date\<close> of a request body is absent or a string, the schema type of the key;
  \<^item> the identifier \<open>_id\<close> that the store assigns to a document is not represented;
  \<^item> each call of the store either answers or fails; the flag \<open>up\<close> of a handler says which.
\<close>

subsection \<open>JavaScript values\<close>

datatype jsnum = Fin rat | PosInfinity | NegInfinity | NaN

text \<open>
  A value of a parsed JSON body, or \<open>undefined\<close> for a field the body does not have.
  A number is given by the value of its literal; parsing the body (\<open>express.json()\<close>) makes
  it the nearest double, see \<open>asDouble\<close> below.
  An array or object is represented by the number that \<open>Number\<close> coerces it to
  (\<open>[]\<close> gives 0, \<open>[5]\<close> gives 5, \<open>{}\<close> gives \<open>NaN\<close>): the handlers look at such a
  value only through \<open>!\<close>, \<open>isNaN\<close> and \<open>Number\<close>.
\<close>

datatype jsval =
    JUndefined
  | JNull
  | JBoolean bool
  | JNumber jsnum
  | JString string
  | JObject jsnum

text \<open>
  The nearest integer, the even one of the two when they are equally near.
\<close>

definition roundHalfEven :: "rat \<Rightarrow> int" where
  "roundHalfEven y =
     (let f = \<lfloor>y\<rfloor>; r = y - of_int f
      in if r < 1 / 2 then f else if 1 / 2 < r then f + 1 else if even f then f else f + 1)"

text \<open>
  The least positive double is \<open>2 ^ -1074\<close>, the unit below. A value that rounds to
  \<open>2 ^ 1024\<close> or more, which is \<open>2 ^ 2098\<close> units, overflows.
\<close>

definition ulpBits :: nat where
  "ulpBits = 1074"

definition overflowBits :: nat where
  "overflowBits = 2098"

text \<open>
  The Number value of a rational: round to the nearest double, ties to even (IEEE 754
  binary64). With \<open>a\<close> the magnitude in units, the doubles around \<open>a\<close> are \<open>2 ^ s\<close> units
  apart, where \<open>s\<close> leaves 53 significant bits (and \<open>s = 0\<close> in the subnormal range);
  \<open>a\<close> is rounded to a multiple of \<open>2 ^ s\<close>.
\<close>

definition toDouble :: "rat \<Rightarrow> jsnum" where
  "toDouble x =
     (let a = \<bar>x\<bar> * 2 ^ ulpBits;
          s = nat (bitlen \<lfloor>a\<rfloor> - 53);
          n = roundHalfEven (a / 2 ^ s) * 2 ^ s
      in if 2 ^ overflowBits \<le> n then (if 0 \<le> x then PosInfinity else NegInfinity)
         else Fin (sgn x * of_int n / 2 ^ ulpBits))"

text \<open>The double that a number of the body is parsed to; a double is left as it is.\<close>

fun asDouble :: "jsnum \<Rightarrow> jsnum" where
  "asDouble (Fin q) = toDouble q"
| "asDouble PosInfinity = PosInfinity"
| "asDouble NegInfinity = NegInfinity"
| "asDouble NaN = NaN"

text \<open>Addition of doubles, as \<open>$inc\<close> applies it: the exact sum, rounded.\<close>

fun numAdd :: "jsnum \<Rightarrow> jsnum \<Rightarrow> jsnum" where
  "numAdd NaN _ = NaN"
| "numAdd _ NaN = NaN"
| "numAdd PosInfinity NegInfinity = NaN"
| "numAdd NegInfinity PosInfinity = NaN"
| "numAdd PosInfinity _ = PosInfinity"
| "numAdd _ PosInfinity = PosInfinity"
| "numAdd NegInfinity _ = NegInfinity"
| "numAdd _ NegInfinity = NegInfinity"
| "numAdd (Fin a) (Fin b) = toDouble (a + b)"

fun numNeg :: "jsnum \<Rightarrow> jsnum" where
  "numNeg (Fin a) = Fin (- a)"
| "numNeg PosInfinity = NegInfinity"
| "numNeg NegInfinity = PosInfinity"
| "numNeg NaN = NaN"

text \<open>\<open>0 \<le> x\<close> on numbers; every comparison with \<open>NaN\<close> is false.\<close>

fun nonNegative :: "jsnum \<Rightarrow> bool" where
  "nonNegative (Fin a) = (0 \<le> a)"
| "nonNegative PosInfinity = True"
| "nonNegative NegInfinity = False"
| "nonNegative NaN = False"

subsection \<open>String to number (the StringToNumber operation behind \<open>Number\<close> and \<open>isNaN\<close>)\<close>

text \<open>The white space that is trimmed: TAB, LF, VT, FF, CR, SP and NBSP.\<close>

definition isWhiteSpace :: "char \<Rightarrow> bool" where
  "isWhiteSpace c = (of_char c \<in> {9, 10, 11, 12, 13, 32, 160 :: nat})"

definition trimString :: "string \<Rightarrow> string" where
  "trimString s = rev (dropWhile isWhiteSpace (rev (dropWhile isWhiteSpace s)))"

text \<open>The value of a character as a digit of the given radix, if it is one.\<close>

definition digitValue :: "nat \<Rightarrow> char \<Rightarrow> nat option" where
  "digitValue radix c =
     (let n = (of_char c :: nat);
          v = (if 48 \<le> n \<and> n \<le> 57 then Some (n - 48)
               else if 97 \<le> n \<and> n \<le> 102 then Some (n - 87)
               else if 65 \<le> n \<and> n \<le> 70 then Some (n - 55)
               else None)
      in case v of None \<Rightarrow> None | Some d \<Rightarrow> if d < radix then Some d else None)"

definition isDecimalDigit :: "char \<Rightarrow> bool" where
  "isDecimalDigit c = (digitValue 10 c \<noteq> None)"

fun parseDigits :: "nat \<Rightarrow> string \<Rightarrow> nat \<Rightarrow> nat option" where
  "parseDigits radix [] acc = Some acc"
| "parseDigits radix (c # cs) acc =
     (case digitValue radix c of
        None \<Rightarrow> None
      | Some d \<Rightarrow> parseDigits radix cs (acc * radix + d))"

text \<open>One or more digits of the radix, and nothing else.\<close>

definition parseNat :: "nat \<Rightarrow> string \<Rightarrow> nat option" where
  "parseNat radix s = (if s = [] then None else parseDigits radix s 0)"

text \<open>\<open>0x\<close>, \<open>0o\<close> and \<open>0b\<close> literals; they take no sign.\<close>

definition parseNonDecimal :: "string \<Rightarrow> nat option" where
  "parseNonDecimal s =
     (case s of
        z # x # ds \<Rightarrow>
          if z \<noteq> CHR ''0'' then None
          else if x = CHR ''x'' \<or> x = CHR ''X'' then parseNat 16 ds
          else if x = CHR ''o'' \<or> x = CHR ''O'' then parseNat 8 ds
          else if x = CHR ''b'' \<or> x = CHR ''B'' then parseNat 2 ds
          else None
      | _ \<Rightarrow> None)"

text \<open>The exponent part, or nothing: \<open>e\<close> or \<open>E\<close>, an optional sign, digits.\<close>

definition parseExponent :: "string \<Rightarrow> int option" where
  "parseExponent s =
     (case s of
        [] \<Rightarrow> Some 0
      | c # r \<Rightarrow>
          if c = CHR ''e'' \<or> c = CHR ''E'' then
            (case r of
               [] \<Rightarrow> None
             | d # r' \<Rightarrow>
                 if d = CHR ''+'' then map_option int (parseNat 10 r')
                 else if d = CHR ''-'' then map_option (\<lambda>n. - int n) (parseNat 10 r')
                 else map_option int (parseNat 10 r))
          else None)"

definition scale10 :: "rat \<Rightarrow> int \<Rightarrow> rat" where
  "scale10 x e = (if 0 \<le> e then x * 10 ^ nat e else x / 10 ^ nat (- e))"

text \<open>
  An unsigned decimal literal: \<open>Infinity\<close>, or digits with an optional fraction and
  exponent, with a digit before or after the point. The result is the mathematical value of
  the literal, rounded to a double.
\<close>

definition parseUnsignedDecimal :: "string \<Rightarrow> jsnum option" where
  "parseUnsignedDecimal s =
     (if s = ''Infinity'' then Some PosInfinity
      else
        let ip = takeWhile isDecimalDigit s;
            r1 = dropWhile isDecimalDigit s;
            dot = (r1 \<noteq> [] \<and> hd r1 = CHR ''.'');
            fp = (if dot then takeWhile isDecimalDigit (tl r1) else []);
            r2 = (if dot then dropWhile isDecimalDigit (tl r1) else r1)
        in if ip = [] \<and> fp = [] then None
           else
             (case (parseDigits 10 (ip @ fp) 0, parseExponent r2) of
                (Some m, Some e) \<Rightarrow> Some (toDouble (scale10 (of_nat m) (e - int (length fp))))
              | _ \<Rightarrow> None))"

definition StringToNumber :: "string \<Rightarrow> jsnum" where
  "StringToNumber s =
     (let t = trimString s in
      if t = [] then Fin 0
      else
        case parseNonDecimal t of
          Some n \<Rightarrow> toDouble (of_nat n)
        | None \<Rightarrow>
            (let signed = (hd t = CHR ''+'' \<or> hd t = CHR ''-'');
                 body = (if signed then tl t else t)
             in case parseUnsignedDecimal body of
                  None \<Rightarrow> NaN
                | Some v \<Rightarrow> if hd t = CHR ''-'' then numNeg v else v))"

subsection \<open>The coercions the handlers use\<close>

text \<open>\<open>Number(x)\<close>.\<close>

fun Number :: "jsval \<Rightarrow> jsnum" where
  "Number JUndefined = NaN"
| "Number JNull = Fin 0"
| "Number (JBoolean b) = (if b then Fin 1 else Fin 0)"
| "Number (JNumber n) = asDouble n"
| "Number (JString s) = StringToNumber s"
| "Number (JObject n) = asDouble n"

text \<open>\<open>isNaN(x)\<close>: the argument is coerced by \<open>Number\<close> first.\<close>

definition isNaN :: "jsval \<Rightarrow> bool" where
  "isNaN x = (Number x = NaN)"

text \<open>\<open>!x\<close>: true on \<open>undefined\<close>, \<open>null\<close>, \<open>false\<close>, 0, \<open>NaN\<close> and the empty string.\<close>

fun falsy :: "jsval \<Rightarrow> bool" where
  "falsy JUndefined = True"
| "falsy JNull = True"
| "falsy (JBoolean b) = (\<not> b)"
| "falsy (JNumber n) = (asDouble n = Fin 0 \<or> asDouble n = NaN)"
| "falsy (JString s) = (s = [])"
| "falsy (JObject n) = False"

subsection \<open>The Day model and the store\<close>

text \<open>
  \<open>daySchema\<close>: a document has a \<open>date\<close> string and two numeric totals. The collection is
  the list of its documents in insertion order.
\<close>

record day =
  date :: string
  totalCalories :: jsnum
  totalProtein :: jsnum

text \<open>
  The two update documents of the source: \<open>{ $inc: { totalCalories: c, totalProtein: p } }\<close>
  and \<open>{ totalCalories: c, totalProtein: p }\<close>, which Mongoose sends as a \<open>$set\<close>.
\<close>

datatype update = Inc jsnum jsnum | SetTotals jsnum jsnum

fun applyUpdate :: "update \<Rightarrow> day \<Rightarrow> day" where
  "applyUpdate (Inc c p) r =
     r\<lparr>totalCalories := numAdd (totalCalories r) c, totalProtein := numAdd (totalProtein r) p\<rparr>"
| "applyUpdate (SetTotals c p) r = r\<lparr>totalCalories := c, totalProtein := p\<rparr>"

text \<open>
  The document an upsert inserts: the \<open>date\<close> of the filter, and the update applied to a
  document without the two totals (\<open>$inc\<close> of a missing field sets it to the amount).
  \<open>setDefaultsOnInsert\<close> adds nothing, since both totals are in the update.
\<close>

fun upsertDoc :: "string \<Rightarrow> update \<Rightarrow> day" where
  "upsertDoc d (Inc c p) = \<lparr>date = d, totalCalories = c, totalProtein = p\<rparr>"
| "upsertDoc d (SetTotals c p) = \<lparr>date = d, totalCalories = c, totalProtein = p\<rparr>"

text \<open>
  \<open>findOneAndUpdate({ date: d }, u, { new: true, upsert: true })\<close> as one step of the store:
  the first document with that date is updated, or a new one is inserted; the document after
  the update is returned with the new collection.
\<close>

fun findOneAndUpdate :: "string \<Rightarrow> update \<Rightarrow> day list \<Rightarrow> day list \<times> day" where
  "findOneAndUpdate d u [] = ([upsertDoc d u], upsertDoc d u)"
| "findOneAndUpdate d u (r # rs) =
     (if date r = d then (applyUpdate u r # rs, applyUpdate u r)
      else (case findOneAndUpdate d u rs of (rs', doc) \<Rightarrow> (r # rs', doc)))"

datatype store_error = StoreError

text \<open>The two store calls of the handlers; a call rejects when the store is not up.\<close>

definition Day_find_sort :: "bool \<Rightarrow> day list \<Rightarrow> store_error + day list" where
  "Day_find_sort up db = (if up then Inr (rev (sort_key date db)) else Inl StoreError)"

definition Day_findOneAndUpdate ::
  "bool \<Rightarrow> string \<Rightarrow> update \<Rightarrow> day list \<Rightarrow> store_error + (day list \<times> day)" where
  "Day_findOneAndUpdate up d u db = (if up then Inr (findOneAndUpdate d u db) else Inl StoreError)"

subsection \<open>Requests and responses\<close>

text \<open>\<open>req.body\<close>; a field that the body lacks is \<open>JUndefined\<close>, a date that it lacks \<open>None\<close>.\<close>

record reqbody =
  calories :: jsval
  protein :: jsval
  reqdate :: "string option"

fun dateValue :: "string option \<Rightarrow> jsval" where
  "dateValue None = JUndefined"
| "dateValue (Some s) = JString s"

datatype body = Message string | Doc day | Docs "day list"

datatype response = Response nat body

subsection \<open>The handlers\<close>

text \<open>\<open>app.get('/api/days')\<close>\<close>

definition get_api_days :: "bool \<Rightarrow> day list \<Rightarrow> day list \<times> response" where
  "get_api_days up db =
     (case Day_find_sort up db of
        Inr days \<Rightarrow> (db, Response 200 (Docs days))
      | Inl err \<Rightarrow> (db, Response 500 (Message ''Server Error: Could not fetch data.'')))"

text \<open>
  \<open>app.post('/api/meals')\<close>. A body without \<open>date\<close> is falsy in \<open>date\<close> and is
  rejected by the check; the branch \<open>None\<close> after the check is never taken. The same holds
  for \<open>app.put('/api/days/reset')\<close>.
\<close>

definition post_api_meals :: "bool \<Rightarrow> day list \<Rightarrow> reqbody \<Rightarrow> day list \<times> response" where
  "post_api_meals up db b =
     (let c = calories b; p = protein b; d = dateValue (reqdate b) in
      if falsy c \<or> falsy p \<or> falsy d \<or> isNaN c \<or> isNaN p \<or> isNaN d then
        (db, Response 400
           (Message ''Invalid input. Please provide numeric values for calories and protein.''))
      else
        (case reqdate b of
           None \<Rightarrow>
             (db, Response 400
                (Message ''Invalid input. Please provide numeric values for calories and protein.''))
         | Some today \<Rightarrow>
             (case Day_findOneAndUpdate up today (Inc (Number c) (Number p)) db of
                Inr (db', dayEntry) \<Rightarrow> (db', Response 200 (Doc dayEntry))
              | Inl err \<Rightarrow> (db, Response 500 (Message ''Server Error: Could not save data.'')))))"

text \<open>\<open>app.put('/api/days/reset')\<close>\<close>

definition put_api_days_reset :: "bool \<Rightarrow> day list \<Rightarrow> reqbody \<Rightarrow> day list \<times> response" where
  "put_api_days_reset up db b =
     (let d = dateValue (reqdate b) in
      if falsy d \<or> isNaN d then
        (db, Response 400 (Message ''Invalid input. Please provide a valid date.''))
      else
        (case reqdate b of
           None \<Rightarrow> (db, Response 400 (Message ''Invalid input. Please provide a valid date.''))
         | Some today \<Rightarrow>
             (case Day_findOneAndUpdate up today (SetTotals (Fin 0) (Fin 0)) db of
                Inr (db', dayEntry) \<Rightarrow> (db', Response 200 (Doc dayEntry))
              | Inl err \<Rightarrow> (db, Response 500 (Message ''Server Error: Could not reset data.'')))))"

subsection \<open>Sequences of requests\<close>

datatype request = GET_days | POST_meals reqbody | PUT_reset reqbody

text \<open>One request served, with the state of the store connection at that moment.\<close>

fun serve :: "day list \<Rightarrow> bool \<times> request \<Rightarrow> day list \<times> response" where
  "serve db (up, GET_days) = get_api_days up db"
| "serve db (up, POST_meals b) = post_api_meals up db b"
| "serve db (up, PUT_reset b) = put_api_days_reset up db b"

fun run :: "day list \<Rightarrow> (bool \<times> request) list \<Rightarrow> day list" where
  "run db [] = db"
| "run db (q # qs) = run (fst (serve db q)) qs"

text \<open>The body passes the validation of \<open>app.post('/api/meals')\<close>.\<close>

definition mealAccepted :: "reqbody \<Rightarrow> bool" where
  "mealAccepted b =
     (\<not> (falsy (calories b) \<or> falsy (protein b) \<or> falsy (dateValue (reqdate b))
         \<or> isNaN (calories b) \<or> isNaN (protein b) \<or> isNaN (dateValue (reqdate b))))"

text \<open>An Add-meal request that is rejected, or whose two numbers are not negative.\<close>

fun nonNegativeMeal :: "request \<Rightarrow> bool" where
  "nonNegativeMeal (POST_meals b) =
     (if mealAccepted b
      then nonNegative (Number (calories b)) \<and> nonNegative (Number (protein b))
      else True)"
| "nonNegativeMeal _ = True"

text \<open>Every total of the collection is a number that is not negative.\<close>

definition totalsNonNegative :: "day list \<Rightarrow> bool" where
  "totalsNonNegative db = (\<forall>r \<in> set db. nonNegative (totalCalories r) \<and> nonNegative (totalProtein r))"

section \<open>Properties\<close>

subsection \<open>Rounding to a double\<close>

text \<open>Every integer below \<open>2 ^ 53\<close> in magnitude is a double, and rounding keeps the sign.\<close>

lemma roundHalfEven_of_int: "roundHalfEven (of_int k) = k"
  by (simp add: roundHalfEven_def)

lemma roundHalfEven_nonneg: "0 \<le> y \<Longrightarrow> 0 \<le> roundHalfEven y"
  by (auto simp: roundHalfEven_def Let_def)

lemma toDouble_zero [simp]: "toDouble 0 = Fin 0"
  by (simp add: toDouble_def roundHalfEven_def)

lemma toDouble_of_int_pos:
  assumes "0 < m" "m < 2 ^ 53"
  shows "toDouble (of_int m) = Fin (of_int m)"
proof -
  define s where "s = nat (bitlen m + int ulpBits - 53)"
  have a: "\<bar>of_int m :: rat\<bar> * 2 ^ ulpBits = of_int (m * 2 ^ ulpBits)"
    using assms by simp
  have bl: "bitlen (m * 2 ^ ulpBits) = bitlen m + int ulpBits"
    using assms by simp
  have "bitlen m \<le> 53"
    using assms by (simp add: bitlen_le_iff_power)
  moreover have "0 \<le> bitlen m"
    by (rule bitlen_nonneg)
  ultimately have s_le: "s \<le> ulpBits"
    by (simp add: s_def)
  have s_eq: "nat (bitlen (m * 2 ^ ulpBits) - 53) = s"
    by (simp add: s_def bl)
  have split: "(2::int) ^ ulpBits = 2 ^ (ulpBits - s) * 2 ^ s"
    using s_le by (simp flip: power_add)
  have "(2::rat) ^ ulpBits / 2 ^ s = 2 ^ (ulpBits - s)"
    using s_le by (simp add: power_diff)
  then have "(of_int m :: rat) * (2 ^ ulpBits / 2 ^ s) = of_int m * 2 ^ (ulpBits - s)"
    by (rule arg_cong)
  then have "(of_int (m * 2 ^ ulpBits) :: rat) / 2 ^ s = of_int (m * 2 ^ (ulpBits - s))"
    by simp
  then have "roundHalfEven (of_int (m * 2 ^ ulpBits) / 2 ^ s) * 2 ^ s
      = m * 2 ^ (ulpBits - s) * 2 ^ s"
    by (simp only: roundHalfEven_of_int)
  also have "\<dots> = m * 2 ^ ulpBits"
    using s_le by (simp add: mult.assoc flip: power_add)
  finally have n: "roundHalfEven (of_int (m * 2 ^ ulpBits) / 2 ^ s) * 2 ^ s = m * 2 ^ ulpBits" .
  have "m * 2 ^ ulpBits < 2 ^ 53 * (2::int) ^ ulpBits"
    using assms by simp
  also have "\<dots> = 2 ^ (53 + ulpBits)"
    by (simp only: power_add)
  also have "\<dots> \<le> 2 ^ overflowBits"
    by (rule power_increasing) (simp_all add: ulpBits_def overflowBits_def)
  finally have small: "\<not> (2::int) ^ overflowBits \<le> m * 2 ^ ulpBits"
    by simp
  show ?thesis
    unfolding toDouble_def a Let_def floor_of_int s_eq n
    using small assms by simp
qed

lemma toDouble_neg_Fin: "toDouble x = Fin q \<Longrightarrow> toDouble (- x) = Fin (- q)"
  by (auto simp: toDouble_def Let_def sgn_if split: if_splits)

lemma toDouble_of_int:
  assumes "\<bar>m\<bar> < 2 ^ 53"
  shows "toDouble (of_int m) = Fin (of_int m)"
proof (cases m "0::int" rule: linorder_cases)
  case less
  with assms have "toDouble (of_int (- m)) = Fin (of_int (- m))"
    by (intro toDouble_of_int_pos) simp_all
  from toDouble_neg_Fin [OF this] show ?thesis
    by simp
next
  case equal
  then show ?thesis by (simp add: toDouble_zero)
next
  case greater
  with assms show ?thesis
    by (intro toDouble_of_int_pos) simp_all
qed

lemma toDouble_numeral [simp]:
  "(numeral k :: int) < 2 ^ 53 \<Longrightarrow> toDouble (numeral k) = Fin (numeral k)"
  "(numeral k :: int) < 2 ^ 53 \<Longrightarrow> toDouble (- numeral k) = Fin (- numeral k)"
  "toDouble 1 = Fin 1"
  using toDouble_of_int [of "numeral k"] toDouble_of_int [of "- numeral k"] toDouble_of_int [of 1]
  by simp_all

lemma nonNegative_toDouble: "0 \<le> x \<Longrightarrow> nonNegative (toDouble x)"
  by (auto simp: toDouble_def Let_def sgn_if roundHalfEven_nonneg)

text \<open>
  A value below half the least positive double rounds to 0, a value from \<open>2 ^ 1024\<close> on to
  \<open>Infinity\<close>, and \<open>2 ^ 53 + 1\<close>, halfway between two doubles, to the even one.
\<close>

lemma roundHalfEven_ge_floor: "\<lfloor>y\<rfloor> \<le> roundHalfEven y"
  by (simp add: roundHalfEven_def Let_def)

lemma bitlen_geI:
  assumes "2 ^ k \<le> x"
  shows "int k + 1 \<le> bitlen x"
proof -
  have "nat (int k + 1) - 1 = k"
    by arith
  with assms have "2 ^ (nat (int k + 1) - 1) \<le> x"
    by (simp only:)
  then show ?thesis
    by (simp only: bitlen_ge_iff_power) simp
qed

lemma toDouble_underflow:
  assumes "\<bar>x\<bar> * 2 ^ ulpBits < 1 / 2"
  shows "toDouble x = Fin 0"
proof -
  let ?a = "\<bar>x\<bar> * 2 ^ ulpBits"
  have nonneg: "0 \<le> ?a"
    by simp
  with assms have fl: "\<lfloor>?a\<rfloor> = 0"
    by (simp add: floor_eq_iff)
  with assms have "roundHalfEven ?a = 0"
    by (simp only: roundHalfEven_def Let_def) simp
  then show ?thesis
    by (simp add: toDouble_def Let_def fl)
qed

lemma toDouble_overflow:
  assumes "2 ^ 1024 \<le> x"
  shows "toDouble x = PosInfinity"
proof -
  let ?a = "\<bar>x\<bar> * 2 ^ ulpBits"
  define F where "F = \<lfloor>?a\<rfloor>"
  define s where "s = nat (bitlen F - 53)"
  have ov: "overflowBits = 1024 + ulpBits"
    by (simp add: overflowBits_def ulpBits_def)
  have "(0::rat) \<le> 2 ^ 1024"
    by simp
  with assms have x: "0 \<le> x" "\<bar>x\<bar> = x"
    by linarith+
  have "(2::rat) ^ overflowBits = 2 ^ 1024 * 2 ^ ulpBits"
    by (simp only: ov power_add)
  also have "\<dots> \<le> ?a"
    using assms x by (intro mult_right_mono) simp_all
  finally have "rat_of_int (2 ^ overflowBits) \<le> ?a"
    by simp
  then have F_ge: "2 ^ overflowBits \<le> F"
    unfolding F_def by (simp only: le_floor_iff)
  moreover have "(0::int) < 2 ^ overflowBits"
    by simp
  ultimately have F_pos: "0 < F"
    by linarith
  have "int overflowBits + 1 \<le> bitlen F"
    using F_ge by (rule bitlen_geI)
  then have b: "54 \<le> bitlen F" "int overflowBits + 1 \<le> bitlen F"
    by (simp_all add: overflowBits_def)
  then have s: "nat (bitlen F - 1) = 52 + s"
    by (simp add: s_def)
  from bitlen_bounds [OF F_pos] have "2 ^ (52 + s) \<le> F"
    by (simp add: s)
  then have "rat_of_int (2 ^ 52 * 2 ^ s) \<le> of_int F"
    by (simp only: power_add of_int_le_iff)
  also have "\<dots> \<le> ?a"
    unfolding F_def by (rule of_int_floor_le)
  finally have "rat_of_int (2 ^ 52) \<le> ?a / 2 ^ s"
    by (simp add: pos_le_divide_eq)
  then have "2 ^ 52 \<le> \<lfloor>?a / 2 ^ s\<rfloor>"
    by (simp only: le_floor_iff)
  also have "\<dots> \<le> roundHalfEven (?a / 2 ^ s)"
    by (rule roundHalfEven_ge_floor)
  finally have "2 ^ 52 * 2 ^ s \<le> roundHalfEven (?a / 2 ^ s) * 2 ^ s"
    by (intro mult_right_mono) simp_all
  moreover have "(2::int) ^ overflowBits \<le> 2 ^ (52 + s)"
    using b by (intro power_increasing) (simp_all add: s_def)
  ultimately have "2 ^ overflowBits \<le> roundHalfEven (?a / 2 ^ s) * 2 ^ s"
    by (simp only: power_add)
  then show ?thesis
    using x by (simp add: toDouble_def Let_def F_def s_def)
qed

lemma bitlen_eqI:
  assumes "2 ^ k \<le> x" "x < 2 ^ Suc k"
  shows "bitlen x = int (Suc k)"
proof -
  have "x < 2 ^ nat (int (Suc k))"
    using assms by (simp only: nat_int)
  then have "bitlen x \<le> int (Suc k)"
    by (simp only: bitlen_le_iff_power) simp
  moreover have "int (Suc k) \<le> bitlen x"
    using bitlen_geI [OF assms(1)] by simp
  ultimately show ?thesis by simp
qed

lemma toDouble_tie_to_even: "toDouble 9007199254740993 = Fin 9007199254740992"
proof -
  let ?N = "9007199254740993 :: int"
  have "bitlen ?N = int (Suc 53)"
    by (rule bitlen_eqI) simp_all
  then have b: "bitlen (?N * 2 ^ ulpBits) = 54 + int ulpBits"
    by simp
  have a: "\<bar>9007199254740993 :: rat\<bar> * 2 ^ ulpBits = of_int (?N * 2 ^ ulpBits)"
    by simp
  have s: "nat (bitlen (?N * 2 ^ ulpBits) - 53) = Suc ulpBits"
    by (simp add: b)
  have "(of_int (?N * 2 ^ ulpBits) :: rat) / 2 ^ Suc ulpBits = 9007199254740993 / 2"
    by simp
  moreover have "\<lfloor>9007199254740993 / 2 :: rat\<rfloor> = 4503599627370496"
    by (rule floor_unique) simp_all
  then have "roundHalfEven (9007199254740993 / 2) = 4503599627370496"
    by (simp add: roundHalfEven_def Let_def)
  ultimately have n: "roundHalfEven (of_int (?N * 2 ^ ulpBits) / 2 ^ Suc ulpBits) * 2 ^ Suc ulpBits
      = 9007199254740992 * 2 ^ ulpBits"
    by simp
  have "(9007199254740992 :: int) * 2 ^ ulpBits = 2 ^ (53 + ulpBits)"
    by (simp only: power_add) simp
  also have "\<dots> < 2 ^ overflowBits"
    by (rule power_strict_increasing) (simp_all add: ulpBits_def overflowBits_def)
  finally have small: "\<not> (2::int) ^ overflowBits \<le> 9007199254740992 * 2 ^ ulpBits"
    by simp
  show ?thesis
    unfolding toDouble_def a Let_def floor_of_int s n
    using small by simp
qed

text \<open>
  The result of rounding is a double: rounding it again changes nothing. So is every number
  that \<open>Number\<close> gives for a string.
\<close>

lemma toDouble_grid:
  assumes k: "0 < k" "k \<le> 2 ^ 53" and small: "k * 2 ^ s < 2 ^ overflowBits"
  shows "toDouble (of_int (k * 2 ^ s) / 2 ^ ulpBits) = Fin (of_int (k * 2 ^ s) / 2 ^ ulpBits)"
proof -
  let ?n = "k * 2 ^ s"
  let ?q = "rat_of_int ?n / 2 ^ ulpBits"
  define s' where "s' = nat (bitlen ?n - 53)"
  have n_pos: "0 < ?n"
    using k by simp
  then have "0 < rat_of_int ?n"
    by (simp only: of_int_0_less_iff)
  then have q_pos: "0 < ?q"
    by (intro divide_pos_pos) simp_all
  then have "\<bar>?q\<bar> = ?q"
    by (rule abs_of_pos)
  then have a: "\<bar>?q\<bar> * 2 ^ ulpBits = of_int ?n"
    by simp
  from q_pos have sg: "sgn ?q = 1"
    by (rule sgn_pos)
  have bl: "bitlen ?n = bitlen k + int s"
    using k by simp
  have "\<exists>k'. ?n = k' * 2 ^ s'"
  proof (cases "k = 2 ^ 53")
    case True
    then have "bitlen k = int (Suc 53)"
      by (intro bitlen_eqI) simp_all
    then have "s' = Suc s"
      by (simp add: s'_def bl)
    with True have "?n = 2 ^ 52 * 2 ^ s'"
      by simp
    then show ?thesis ..
  next
    case False
    with k have "k < 2 ^ 53"
      by simp
    then have "bitlen k \<le> 53"
      by (simp add: bitlen_le_iff_power)
    then have "s' \<le> s"
      by (simp add: s'_def bl)
    then have "(2::int) ^ s = 2 ^ (s - s') * 2 ^ s'"
      by (simp flip: power_add)
    then have "?n = (k * 2 ^ (s - s')) * 2 ^ s'"
      by (simp only: mult.assoc)
    then show ?thesis ..
  qed
  then obtain k' where k': "?n = k' * 2 ^ s'" ..
  have "rat_of_int (k' * 2 ^ s') / 2 ^ s' = of_int k'"
    by simp
  then have "roundHalfEven (rat_of_int ?n / 2 ^ s') * 2 ^ s' = ?n"
    by (simp only: k' roundHalfEven_of_int)
  then show ?thesis
    unfolding toDouble_def a Let_def floor_of_int s'_def [symmetric]
    using small q_pos sg by simp
qed

lemma roundHalfEven_le: "y \<le> of_int m \<Longrightarrow> roundHalfEven y \<le> m"
proof -
  assume y: "y \<le> of_int m"
  show ?thesis
  proof (cases "y = of_int m")
    case True
    then show ?thesis by (simp add: roundHalfEven_of_int)
  next
    case False
    with y have "y < of_int m" by simp
    then have "\<lfloor>y\<rfloor> < m"
      by (simp add: floor_less_iff)
    then show ?thesis
      by (auto simp: roundHalfEven_def Let_def)
  qed
qed

lemma significand_bound:
  assumes "0 \<le> a"
  shows "roundHalfEven (a / 2 ^ nat (bitlen \<lfloor>a\<rfloor> - 53)) \<le> 2 ^ 53"
proof -
  define F where "F = \<lfloor>a\<rfloor>"
  define s where "s = nat (bitlen F - 53)"
  have "F < 2 ^ nat (bitlen F)"
  proof (cases "0 < F")
    case True
    then show ?thesis using bitlen_bounds by blast
  next
    case False
    have "(0::int) < 2 ^ nat (bitlen F)" by simp
    with False show ?thesis by linarith
  qed
  moreover have "nat (bitlen F) \<le> 53 + s"
    by (simp add: s_def)
  then have "(2::int) ^ nat (bitlen F) \<le> 2 ^ (53 + s)"
    by (intro power_increasing) simp_all
  ultimately have "F + 1 \<le> 2 ^ (53 + s)"
    by linarith
  then have "rat_of_int (F + 1) \<le> of_int (2 ^ (53 + s))"
    by (simp only: of_int_le_iff)
  moreover have "a < of_int (F + 1)"
    unfolding F_def using floor_correct [of a] by simp
  ultimately have "a \<le> of_int (2 ^ 53) * 2 ^ s"
    by (simp add: power_add)
  then have "a / 2 ^ s \<le> of_int (2 ^ 53)"
    by (simp add: pos_divide_le_eq)
  then have "roundHalfEven (a / 2 ^ s) \<le> 2 ^ 53"
    by (rule roundHalfEven_le)
  then show ?thesis
    by (simp only: s_def F_def)
qed

lemma toDouble_idem:
  assumes "toDouble x = Fin q"
  shows "toDouble q = Fin q"
proof -
  let ?a = "\<bar>x\<bar> * 2 ^ ulpBits"
  define s where "s = nat (bitlen \<lfloor>?a\<rfloor> - 53)"
  define k where "k = roundHalfEven (?a / 2 ^ s)"
  from assms have small: "k * 2 ^ s < 2 ^ overflowBits"
    and q: "q = sgn x * of_int (k * 2 ^ s) / 2 ^ ulpBits"
    by (auto simp: toDouble_def Let_def s_def k_def split: if_splits)
  have k_le: "k \<le> 2 ^ 53"
    unfolding k_def s_def by (rule significand_bound) simp
  have k_ge: "0 \<le> k"
    unfolding k_def by (rule roundHalfEven_nonneg) simp
  show ?thesis
  proof (cases "k = 0 \<or> x = 0")
    case True
    with q have "q = 0" by auto
    then show ?thesis by (simp add: toDouble_zero)
  next
    case False
    with k_ge have "0 < k" by simp
    from toDouble_grid [OF this k_le small]
    have grid: "toDouble (of_int (k * 2 ^ s) / 2 ^ ulpBits) = Fin (of_int (k * 2 ^ s) / 2 ^ ulpBits)" .
    show ?thesis
    proof (cases "0 < x")
      case True
      with q grid show ?thesis by simp
    next
      case neg: False
      with False have "x < 0" by simp
      with q have "q = - (of_int (k * 2 ^ s) / 2 ^ ulpBits)"
        by simp
      with toDouble_neg_Fin [OF grid] show ?thesis
        by simp
    qed
  qed
qed

lemma asDouble_toDouble: "asDouble (toDouble x) = toDouble x"
  by (cases "toDouble x") (simp_all add: toDouble_idem)

lemma asDouble_numNeg: "asDouble v = v \<Longrightarrow> asDouble (numNeg v) = numNeg v"
  by (cases v) (simp_all add: toDouble_neg_Fin)

lemma asDouble_parseUnsignedDecimal: "parseUnsignedDecimal s = Some v \<Longrightarrow> asDouble v = v"
  by (auto simp: parseUnsignedDecimal_def Let_def asDouble_toDouble
        split: if_splits option.splits)

lemma asDouble_StringToNumber: "asDouble (StringToNumber s) = StringToNumber s"
  by (auto simp: StringToNumber_def Let_def asDouble_toDouble asDouble_numNeg
        asDouble_parseUnsignedDecimal split: option.splits)

lemma asDouble_numAdd: "asDouble (numAdd a b) = numAdd a b"
  by (cases a; cases b) (simp_all add: asDouble_toDouble)

subsection \<open>Evaluating the coercion of strings\<close>

lemmas StringToNumber_eval =
  StringToNumber_def trimString_def isWhiteSpace_def parseNonDecimal_def
  parseUnsignedDecimal_def isDecimalDigit_def digitValue_def parseExponent_def parseNat_def
  scale10_def Let_def

lemma Number_date_2024_01_15: "StringToNumber ''2024-01-15'' = NaN"
  by (simp add: StringToNumber_eval)

lemma Number_date_20240115: "StringToNumber ''20240115'' = Fin 20240115"
  by (simp add: StringToNumber_eval)

lemma isNaN_date_2024_01_15: "isNaN (JString ''2024-01-15'')"
  by (simp add: isNaN_def Number_date_2024_01_15)

lemma Number_string_examples:
  "StringToNumber ''500'' = Fin 500" "StringToNumber ''30'' = Fin 30"
  "StringToNumber ''200'' = Fin 200" "StringToNumber ''10'' = Fin 10"
  "StringToNumber ''20240116'' = Fin 20240116"
  by (simp_all add: StringToNumber_eval)

text \<open>
  The string \<open>"1e-400"\<close> is the number 0, the string \<open>"1e400"\<close> is \<open>Infinity\<close>, and adding 1
  to \<open>2 ^ 53\<close> leaves it.
\<close>

lemma Number_1e_minus_400: "StringToNumber ''1e-400'' = Fin 0"
proof -
  have "toDouble (scale10 1 (- 400)) = Fin 0"
    by (rule toDouble_underflow) (simp add: scale10_def ulpBits_def)
  then show ?thesis
    by (simp add: StringToNumber_def trimString_def isWhiteSpace_def parseNonDecimal_def
          parseUnsignedDecimal_def isDecimalDigit_def digitValue_def parseExponent_def
          parseNat_def Let_def)
qed

lemma Number_1e400: "StringToNumber ''1e400'' = PosInfinity"
proof -
  have "toDouble (scale10 1 400) = PosInfinity"
    by (rule toDouble_overflow) (simp add: scale10_def)
  then show ?thesis
    by (simp add: StringToNumber_def trimString_def isWhiteSpace_def parseNonDecimal_def
          parseUnsignedDecimal_def isDecimalDigit_def digitValue_def parseExponent_def
          parseNat_def Let_def)
qed

lemma numAdd_2_53_plus_1: "numAdd (Fin 9007199254740992) (Fin 1) = Fin 9007199254740992"
  by (simp add: toDouble_tie_to_even)

subsection \<open>One step of the store\<close>

lemma date_applyUpdate: "date (applyUpdate u r) = date r"
  by (cases u) simp_all

lemma date_upsertDoc: "date (upsertDoc d u) = d"
  by (cases u) simp_all

lemma findOneAndUpdate_absent:
  "d \<notin> date ` set db \<Longrightarrow> findOneAndUpdate d u db = (db @ [upsertDoc d u], upsertDoc d u)"
  by (induction db) auto

lemma findOneAndUpdate_present:
  "r0 \<in> set db \<Longrightarrow> date r0 = d \<Longrightarrow> distinct (map date db) \<Longrightarrow>
   findOneAndUpdate d u db
     = (map (\<lambda>r. if date r = d then applyUpdate u r else r) db, applyUpdate u r0)"
proof (induction db)
  case Nil
  then show ?case by simp
next
  case (Cons r rs)
  show ?case
  proof (cases "date r = d")
    case True
    with Cons.prems have "r0 = r"
      by (auto simp: image_iff)
    moreover from True Cons.prems have "map (\<lambda>x. if date x = d then applyUpdate u x else x) rs = rs"
      by (intro map_idI) (auto simp: image_iff)
    ultimately show ?thesis using True by simp
  next
    case False
    with Cons show ?thesis by auto
  qed
qed

lemma map_date_findOneAndUpdate:
  "map date (fst (findOneAndUpdate d u db))
     = (if d \<in> date ` set db then map date db else map date db @ [d])"
  by (induction db) (auto simp: date_applyUpdate date_upsertDoc split: prod.splits)

lemma distinct_findOneAndUpdate:
  "distinct (map date db) \<Longrightarrow> distinct (map date (fst (findOneAndUpdate d u db)))"
  by (simp add: map_date_findOneAndUpdate)

lemma findOneAndUpdate_SetTotals_twice:
  "findOneAndUpdate d (SetTotals c p) (fst (findOneAndUpdate d (SetTotals c p) db))
     = findOneAndUpdate d (SetTotals c p) db"
  by (induction db) (auto split: prod.splits)

lemma snd_findOneAndUpdate_SetTotals:
  "snd (findOneAndUpdate d (SetTotals c p) db) = \<lparr>date = d, totalCalories = c, totalProtein = p\<rparr>"
  by (induction db) (auto split: prod.splits)

lemma serve_distinct:
  "distinct (map date db) \<Longrightarrow> distinct (map date (fst (serve db q)))"
proof -
  assume inv: "distinct (map date db)"
  obtain up rq where q: "q = (up, rq)"
    by (cases q)
  show ?thesis
  proof (cases rq)
    case GET_days
    with q inv show ?thesis
      by (simp add: get_api_days_def Day_find_sort_def)
  next
    case (POST_meals b)
    with q inv show ?thesis
      by (auto simp: post_api_meals_def Let_def Day_findOneAndUpdate_def
            dest: distinct_findOneAndUpdate [where d = "the (reqdate b)"
                    and u = "Inc (Number (calories b)) (Number (protein b))"]
            split: option.splits prod.splits)
  next
    case (PUT_reset b)
    with q inv show ?thesis
      by (auto simp: put_api_days_reset_def Let_def Day_findOneAndUpdate_def
            dest: distinct_findOneAndUpdate [where d = "the (reqdate b)"
                    and u = "SetTotals (Fin 0) (Fin 0)"]
            split: option.splits prod.splits)
  qed
qed

lemma run_distinct:
  "distinct (map date db) \<Longrightarrow> distinct (map date (run db qs))"
  by (induction qs arbitrary: db) (simp_all add: serve_distinct)

lemma distinct_map_filter_le1:
  "distinct (map f xs) \<Longrightarrow> length (filter (\<lambda>x. f x = k) xs) \<le> 1"
  by (induction xs) (auto simp: filter_empty_conv image_iff)

subsection \<open>Dates in the form YYYY-MM-DD\<close>

text \<open>
  C1. Add-meal with \<open>{calories: 500, protein: 30, date: "2024-01-15"}\<close> on an empty store
  is claimed to pass validation and to answer 200 with the new DayRecord. The handler answers
  400 instead and leaves the store empty: \<open>isNaN("2024-01-15")\<close> is true, so the check
  \<open>isNaN(date)\<close> rejects the date.
\<close>

theorem post_api_meals_rejects_iso_date:
  "post_api_meals up []
     \<lparr>calories = JNumber (Fin 500), protein = JNumber (Fin 30), reqdate = Some ''2024-01-15''\<rparr>
   = ([], Response 400
        (Message ''Invalid input. Please provide numeric values for calories and protein.''))"
  by (simp add: post_api_meals_def isNaN_date_2024_01_15)

text \<open>
  C2. Reset-day with the date \<open>"2024-01-15"\<close> is claimed to succeed with the zeroed
  DayRecord. The handler answers 400 and leaves every store as it is, for the same reason.
\<close>

theorem put_api_days_reset_rejects_iso_date:
  "put_api_days_reset up db \<lparr>calories = c, protein = p, reqdate = Some ''2024-01-15''\<rparr>
   = (db, Response 400 (Message ''Invalid input. Please provide a valid date.''))"
  by (simp add: put_api_days_reset_def isNaN_date_2024_01_15)

subsection \<open>One document per date\<close>

text \<open>
  C4. From a store with at most one DayRecord per date, after any finite sequence of List,
  Add-meal and Reset-day requests (whatever their bodies, and whether or not the store answers),
  the store holds at most one DayRecord with date \<open>d\<close>, for every \<open>d\<close>.
\<close>

theorem at_most_one_day_per_date:
  "distinct (map date db) \<Longrightarrow> length (filter (\<lambda>r. date r = d) (run db qs)) \<le> 1"
  by (rule distinct_map_filter_le1) (rule run_distinct)

theorem at_most_one_day_per_date_witness:
  "distinct (map date [\<lparr>date = ''20240115'', totalCalories = Fin 500, totalProtein = Fin 30\<rparr>])
   \<and> length (filter (\<lambda>r. date r = ''20240115'')
        (run [\<lparr>date = ''20240115'', totalCalories = Fin 500, totalProtein = Fin 30\<rparr>]
           [(True, POST_meals \<lparr>calories = JNumber (Fin 200), protein = JNumber (Fin 10),
                                 reqdate = Some ''20240115''\<rparr>),
            (True, PUT_reset \<lparr>calories = JUndefined, protein = JUndefined,
                                reqdate = Some ''20240116''\<rparr>),
            (True, GET_days)])) \<le> 1"
  using at_most_one_day_per_date
    [of "[\<lparr>date = ''20240115'', totalCalories = Fin 500, totalProtein = Fin 30\<rparr>]"
        "''20240115''"
        "[(True, POST_meals \<lparr>calories = JNumber (Fin 200), protein = JNumber (Fin 10),
                                reqdate = Some ''20240115''\<rparr>),
          (True, PUT_reset \<lparr>calories = JUndefined, protein = JUndefined,
                               reqdate = Some ''20240116''\<rparr>),
          (True, GET_days)]"]
  by simp

subsection \<open>Rejected input\<close>

text \<open>
  C6. An Add-meal request in which \<open>calories\<close>, \<open>protein\<close> or \<open>date\<close> is missing, falsy or
  not coercible to a number, and a Reset-day request in which \<open>date\<close> is, is answered with
  status 400 and the message of its handler, and the store is returned as it was.
\<close>

theorem invalid_input_rejected:
  "(falsy (calories b) \<or> falsy (protein b) \<or> falsy (dateValue (reqdate b))
      \<or> isNaN (calories b) \<or> isNaN (protein b) \<or> isNaN (dateValue (reqdate b))
    \<longrightarrow> post_api_meals up db b
          = (db, Response 400
               (Message ''Invalid input. Please provide numeric values for calories and protein.'')))
   \<and> (falsy (dateValue (reqdate b)) \<or> isNaN (dateValue (reqdate b))
    \<longrightarrow> put_api_days_reset up db b
          = (db, Response 400 (Message ''Invalid input. Please provide a valid date.'')))"
  by (simp add: post_api_meals_def put_api_days_reset_def Let_def)

theorem invalid_input_rejected_witness:
  "isNaN (JString ''abc'') \<and> falsy (dateValue None)
   \<and> post_api_meals True [\<lparr>date = ''20240115'', totalCalories = Fin 500, totalProtein = Fin 30\<rparr>]
        \<lparr>calories = JString ''abc'', protein = JNumber (Fin 30), reqdate = Some ''20240115''\<rparr>
      = ([\<lparr>date = ''20240115'', totalCalories = Fin 500, totalProtein = Fin 30\<rparr>],
         Response 400
           (Message ''Invalid input. Please provide numeric values for calories and protein.''))
   \<and> put_api_days_reset True
        [\<lparr>date = ''20240115'', totalCalories = Fin 500, totalProtein = Fin 30\<rparr>]
        \<lparr>calories = JUndefined, protein = JUndefined, reqdate = None\<rparr>
      = ([\<lparr>date = ''20240115'', totalCalories = Fin 500, totalProtein = Fin 30\<rparr>],
         Response 400 (Message ''Invalid input. Please provide a valid date.''))"
proof -
  have nan: "isNaN (JString ''abc'')"
    by (simp add: isNaN_def StringToNumber_eval)
  have absent: "falsy (dateValue None)"
    by simp
  from nan absent
    invalid_input_rejected
      [of "\<lparr>calories = JString ''abc'', protein = JNumber (Fin 30), reqdate = Some ''20240115''\<rparr>"
          True "[\<lparr>date = ''20240115'', totalCalories = Fin 500, totalProtein = Fin 30\<rparr>]"]
    invalid_input_rejected
      [of "\<lparr>calories = JUndefined, protein = JUndefined, reqdate = None\<rparr>"
          True "[\<lparr>date = ''20240115'', totalCalories = Fin 500, totalProtein = Fin 30\<rparr>]"]
  show ?thesis
    by simp
qed

subsection \<open>Accepted requests\<close>

lemma post_api_meals_accepted:
  assumes "\<not> falsy (calories b)" "\<not> falsy (protein b)" "\<not> isNaN (calories b)"
    "\<not> isNaN (protein b)" "reqdate b = Some d" "d \<noteq> []" "\<not> isNaN (JString d)"
  shows "post_api_meals True db b
    = (fst (findOneAndUpdate d (Inc (Number (calories b)) (Number (protein b))) db),
       Response 200 (Doc (snd (findOneAndUpdate d (Inc (Number (calories b)) (Number (protein b))) db))))"
  using assms
  by (simp add: post_api_meals_def Let_def Day_findOneAndUpdate_def split: prod.splits)

lemma put_api_days_reset_accepted:
  assumes "reqdate b = Some d" "d \<noteq> []" "\<not> isNaN (JString d)"
  shows "put_api_days_reset True db b
    = (fst (findOneAndUpdate d (SetTotals (Fin 0) (Fin 0)) db),
       Response 200 (Doc (snd (findOneAndUpdate d (SetTotals (Fin 0) (Fin 0)) db))))"
  using assms
  by (simp add: put_api_days_reset_def Let_def Day_findOneAndUpdate_def split: prod.splits)

text \<open>
  C3. Let the store hold one DayRecord per date and the record \<open>(d, C, P)\<close>, and let an
  Add-meal request for the date \<open>d\<close> pass the validation of the handler. Then the handler,
  with the store answering, replaces that record by \<open>(d, C + Number(calories),
  P + Number(protein))\<close>, leaves every other record as it was, and answers 200 with the
  new record. The sums are sums of doubles (\<open>numAdd\<close>): the exact sum rounded to the nearest
  double, so that a total of \<open>2 ^ 53\<close> stays what it is when 1 is added.
\<close>

theorem add_meal_increments:
  assumes store: "distinct (map date db)"
      "\<lparr>date = d, totalCalories = C, totalProtein = P\<rparr> \<in> set db"
    and valid: "\<not> falsy (calories b)" "\<not> falsy (protein b)" "\<not> falsy (dateValue (reqdate b))"
      "\<not> isNaN (calories b)" "\<not> isNaN (protein b)" "\<not> isNaN (dateValue (reqdate b))"
    and d: "reqdate b = Some d"
  shows "post_api_meals True db b
    = (map (\<lambda>r. if date r = d
                then \<lparr>date = d, totalCalories = numAdd C (Number (calories b)),
                      totalProtein = numAdd P (Number (protein b))\<rparr>
                else r) db,
       Response 200
         (Doc \<lparr>date = d, totalCalories = numAdd C (Number (calories b)),
               totalProtein = numAdd P (Number (protein b))\<rparr>))"
proof -
  let ?u = "Inc (Number (calories b)) (Number (protein b))"
  let ?r0 = "\<lparr>date = d, totalCalories = C, totalProtein = P\<rparr>"
  let ?r1 = "\<lparr>date = d, totalCalories = numAdd C (Number (calories b)),
               totalProtein = numAdd P (Number (protein b))\<rparr>"
  have upd: "applyUpdate ?u ?r0 = ?r1"
    by simp
  have same: "applyUpdate ?u r = ?r1" if "r \<in> set db" "date r = d" for r
  proof -
    from that store have "r = ?r0"
      by (metis distinct_map inj_on_def day.select_convs(1))
    with upd show ?thesis by simp
  qed
  have "findOneAndUpdate d ?u db
      = (map (\<lambda>r. if date r = d then applyUpdate ?u r else r) db, applyUpdate ?u ?r0)"
    using store by (intro findOneAndUpdate_present) simp_all
  moreover have "map (\<lambda>r. if date r = d then applyUpdate ?u r else r) db
      = map (\<lambda>r. if date r = d then ?r1 else r) db"
    by (rule map_cong) (simp_all add: same del: applyUpdate.simps)
  ultimately have "findOneAndUpdate d ?u db = (map (\<lambda>r. if date r = d then ?r1 else r) db, ?r1)"
    using upd by simp
  moreover from valid d have "d \<noteq> []" "\<not> isNaN (JString d)"
    by simp_all
  ultimately show ?thesis
    using valid d by (simp add: post_api_meals_accepted)
qed

theorem add_meal_increments_witness:
  "distinct (map date [\<lparr>date = ''20240115'', totalCalories = Fin 500, totalProtein = Fin 30\<rparr>,
                       \<lparr>date = ''20240116'', totalCalories = Fin 100, totalProtein = Fin 5\<rparr>])
   \<and> \<not> isNaN (JString ''20240115'')
   \<and> post_api_meals True
        [\<lparr>date = ''20240115'', totalCalories = Fin 500, totalProtein = Fin 30\<rparr>,
         \<lparr>date = ''20240116'', totalCalories = Fin 100, totalProtein = Fin 5\<rparr>]
        \<lparr>calories = JNumber (Fin 200), protein = JNumber (Fin 10), reqdate = Some ''20240115''\<rparr>
      = ([\<lparr>date = ''20240115'', totalCalories = Fin 700, totalProtein = Fin 40\<rparr>,
          \<lparr>date = ''20240116'', totalCalories = Fin 100, totalProtein = Fin 5\<rparr>],
         Response 200 (Doc \<lparr>date = ''20240115'', totalCalories = Fin 700, totalProtein = Fin 40\<rparr>))"
proof -
  have ok: "\<not> isNaN (JString ''20240115'')"
    by (simp add: isNaN_def Number_date_20240115)
  have dist: "distinct (map date
      [\<lparr>date = ''20240115'', totalCalories = Fin 500, totalProtein = Fin 30\<rparr>,
       \<lparr>date = ''20240116'', totalCalories = Fin 100, totalProtein = Fin 5\<rparr>])"
    by simp
  from ok dist
    add_meal_increments
      [of "[\<lparr>date = ''20240115'', totalCalories = Fin 500, totalProtein = Fin 30\<rparr>,
            \<lparr>date = ''20240116'', totalCalories = Fin 100, totalProtein = Fin 5\<rparr>]"
          "''20240115''" "Fin 500" "Fin 30"
          "\<lparr>calories = JNumber (Fin 200), protein = JNumber (Fin 10),
            reqdate = Some ''20240115''\<rparr>"]
  show ?thesis
    by (simp add: isNaN_def)
qed

text \<open>
  The handler at the edges of the doubles: a total of \<open>2 ^ 53\<close> plus a meal of 1; the string
  \<open>"1e-400"\<close>, which is not empty and adds 0; the number \<open>1e-400\<close>, which is parsed to 0 and
  rejected.
\<close>

lemma add_meal_rounds:
  "post_api_meals True
     [\<lparr>date = ''20240115'', totalCalories = Fin 9007199254740992, totalProtein = Fin 30\<rparr>]
     \<lparr>calories = JNumber (Fin 1), protein = JNumber (Fin 1), reqdate = Some ''20240115''\<rparr>
   = ([\<lparr>date = ''20240115'', totalCalories = Fin 9007199254740992, totalProtein = Fin 31\<rparr>],
      Response 200
        (Doc \<lparr>date = ''20240115'', totalCalories = Fin 9007199254740992, totalProtein = Fin 31\<rparr>))"
  by (simp add: post_api_meals_def isNaN_def Number_date_20240115 Day_findOneAndUpdate_def
        toDouble_tie_to_even)

lemma tiny_string_adds_zero:
  "post_api_meals True []
     \<lparr>calories = JString ''1e-400'', protein = JString ''30'', reqdate = Some ''20240115''\<rparr>
   = ([\<lparr>date = ''20240115'', totalCalories = Fin 0, totalProtein = Fin 30\<rparr>],
      Response 200 (Doc \<lparr>date = ''20240115'', totalCalories = Fin 0, totalProtein = Fin 30\<rparr>))"
  by (simp add: post_api_meals_def isNaN_def Number_date_20240115 Day_findOneAndUpdate_def
        Number_1e_minus_400 Number_string_examples)

lemma tiny_number_rejected:
  "post_api_meals True []
     \<lparr>calories = JNumber (Fin (1 / 10 ^ 400)), protein = JNumber (Fin 30),
      reqdate = Some ''20240115''\<rparr>
   = ([], Response 400
        (Message ''Invalid input. Please provide numeric values for calories and protein.''))"
proof -
  have "toDouble (1 / 10 ^ 400) = Fin 0"
    by (rule toDouble_underflow) (simp add: ulpBits_def)
  then have "falsy (JNumber (Fin (1 / 10 ^ 400)))"
    by (simp only: falsy.simps asDouble.simps) simp
  then show ?thesis
    by (simp only: post_api_meals_def Let_def reqbody.simps) simp
qed

subsection \<open>Reset\<close>

text \<open>
  C7. For a Reset-day request whose date passes the validation of the handler, and any store,
  the handler answers 200 with the zeroed DayRecord of that date, and a second Reset-day with
  the same body on the resulting store gives the same store and the same response.
\<close>

theorem reset_day_idempotent:
  assumes valid: "\<not> falsy (dateValue (reqdate b))" "\<not> isNaN (dateValue (reqdate b))"
    and d: "reqdate b = Some d"
  shows "put_api_days_reset True db b
           = (fst (put_api_days_reset True db b),
              Response 200 (Doc \<lparr>date = d, totalCalories = Fin 0, totalProtein = Fin 0\<rparr>))
       \<and> put_api_days_reset True (fst (put_api_days_reset True db b)) b
           = put_api_days_reset True db b"
proof -
  from valid d have ok: "d \<noteq> []" "\<not> isNaN (JString d)"
    by simp_all
  show ?thesis
    using d ok
    by (simp add: put_api_days_reset_accepted findOneAndUpdate_SetTotals_twice
          snd_findOneAndUpdate_SetTotals)
qed

theorem reset_day_idempotent_witness:
  "\<not> falsy (dateValue (Some ''20240115'')) \<and> \<not> isNaN (dateValue (Some ''20240115''))
   \<and> put_api_days_reset True
        [\<lparr>date = ''20240115'', totalCalories = Fin 700, totalProtein = Fin 40\<rparr>]
        \<lparr>calories = JUndefined, protein = JUndefined, reqdate = Some ''20240115''\<rparr>
      = ([\<lparr>date = ''20240115'', totalCalories = Fin 0, totalProtein = Fin 0\<rparr>],
         Response 200 (Doc \<lparr>date = ''20240115'', totalCalories = Fin 0, totalProtein = Fin 0\<rparr>))
   \<and> put_api_days_reset True
        [\<lparr>date = ''20240115'', totalCalories = Fin 0, totalProtein = Fin 0\<rparr>]
        \<lparr>calories = JUndefined, protein = JUndefined, reqdate = Some ''20240115''\<rparr>
      = ([\<lparr>date = ''20240115'', totalCalories = Fin 0, totalProtein = Fin 0\<rparr>],
         Response 200 (Doc \<lparr>date = ''20240115'', totalCalories = Fin 0, totalProtein = Fin 0\<rparr>))"
proof -
  have ok: "\<not> falsy (dateValue (Some ''20240115''))" "\<not> isNaN (dateValue (Some ''20240115''))"
    by (simp_all add: isNaN_def Number_date_20240115)
  have first: "fst (put_api_days_reset True
        [\<lparr>date = ''20240115'', totalCalories = Fin 700, totalProtein = Fin 40\<rparr>]
        \<lparr>calories = JUndefined, protein = JUndefined, reqdate = Some ''20240115''\<rparr>)
      = [\<lparr>date = ''20240115'', totalCalories = Fin 0, totalProtein = Fin 0\<rparr>]"
    using ok by (simp add: put_api_days_reset_def Day_findOneAndUpdate_def)
  from ok first
    reset_day_idempotent
      [of "\<lparr>calories = JUndefined, protein = JUndefined, reqdate = Some ''20240115''\<rparr>"
          "''20240115''"
          "[\<lparr>date = ''20240115'', totalCalories = Fin 700, totalProtein = Fin 40\<rparr>]"]
  show ?thesis
    by simp
qed

subsection \<open>List\<close>

text \<open>
  C8. With the store answering, List answers 200 with all the DayRecords of the store, each
  as often as the store holds it, in descending order of \<open>date\<close>; the store is returned
  unchanged, also when it does not answer.
\<close>

theorem list_days_sorted_descending:
  "(\<exists>days. get_api_days True db = (db, Response 200 (Docs days))
      \<and> mset days = mset db
      \<and> sorted_wrt (\<lambda>r r'. date r \<ge> date r') days)
   \<and> fst (get_api_days up db) = db"
proof -
  have "sorted (map date (sort_key date db))"
    by simp
  then have "sorted_wrt (\<lambda>r r'. date r \<le> date r') (sort_key date db)"
    by (simp add: sorted_map)
  then have "sorted_wrt (\<lambda>r r'. date r \<ge> date r') (rev (sort_key date db))"
    by (simp add: sorted_wrt_rev)
  then show ?thesis
    by (simp add: get_api_days_def Day_find_sort_def)
qed

subsection \<open>The sign of the totals\<close>

lemma nonNegative_numAdd: "nonNegative a \<Longrightarrow> nonNegative b \<Longrightarrow> nonNegative (numAdd a b)"
  by (cases a; cases b) (simp_all add: nonNegative_toDouble)

lemma totalsNonNegative_findOneAndUpdate_Inc:
  assumes "totalsNonNegative db" "nonNegative c" "nonNegative p"
  shows "totalsNonNegative (fst (findOneAndUpdate d (Inc c p) db))"
  using assms
  by (induction db) (auto simp: totalsNonNegative_def nonNegative_numAdd split: prod.splits)

lemma totalsNonNegative_findOneAndUpdate_SetTotals:
  assumes "totalsNonNegative db"
  shows "totalsNonNegative (fst (findOneAndUpdate d (SetTotals (Fin 0) (Fin 0)) db))"
  using assms
  by (induction db) (auto simp: totalsNonNegative_def split: prod.splits)

lemma serve_totalsNonNegative:
  assumes inv: "totalsNonNegative db" and ok: "nonNegativeMeal (snd q)"
  shows "totalsNonNegative (fst (serve db q))"
proof -
  obtain up rq where q: "q = (up, rq)"
    by (cases q)
  show ?thesis
  proof (cases rq)
    case GET_days
    with q inv show ?thesis
      by (simp add: get_api_days_def Day_find_sort_def)
  next
    case (POST_meals b)
    show ?thesis
    proof (cases "mealAccepted b \<and> up")
      case True
      then obtain today where today: "reqdate b = Some today"
        by (cases "reqdate b") (auto simp: mealAccepted_def)
      from True ok q POST_meals
      have "nonNegative (Number (calories b))" "nonNegative (Number (protein b))"
        by simp_all
      with inv have "totalsNonNegative
          (fst (findOneAndUpdate today (Inc (Number (calories b)) (Number (protein b))) db))"
        by (rule totalsNonNegative_findOneAndUpdate_Inc)
      with True today q POST_meals show ?thesis
        by (auto simp: post_api_meals_def mealAccepted_def Let_def Day_findOneAndUpdate_def
              split: prod.splits)
    next
      case False
      with q POST_meals inv show ?thesis
        by (auto simp: post_api_meals_def mealAccepted_def Let_def Day_findOneAndUpdate_def
              split: option.splits)
    qed
  next
    case (PUT_reset b)
    show ?thesis
    proof (cases "reqdate b")
      case None
      with q PUT_reset inv show ?thesis
        by (simp add: put_api_days_reset_def)
    next
      case (Some today)
      from inv have "totalsNonNegative
          (fst (findOneAndUpdate today (SetTotals (Fin 0) (Fin 0)) db))"
        by (rule totalsNonNegative_findOneAndUpdate_SetTotals)
      with Some q PUT_reset inv show ?thesis
        by (auto simp: put_api_days_reset_def Let_def Day_findOneAndUpdate_def split: prod.splits)
    qed
  qed
qed

lemma run_totalsNonNegative:
  "totalsNonNegative db \<Longrightarrow> \<forall>q \<in> set qs. nonNegativeMeal (snd q) \<Longrightarrow>
   totalsNonNegative (run db qs)"
  by (induction qs arbitrary: db) (simp_all add: serve_totalsNonNegative)

text \<open>
  C5, as stated, fails: nothing in the handler looks at the sign of a number. On the empty
  store, the accepted meal \<open>{calories: -500, protein: -30, date: "20240115"}\<close> leaves a
  DayRecord with both totals below zero.
\<close>

theorem negative_meal_counterexample:
  "run [] [(True, POST_meals \<lparr>calories = JNumber (Fin (- 500)), protein = JNumber (Fin (- 30)),
                               reqdate = Some ''20240115''\<rparr>)]
     = [\<lparr>date = ''20240115'', totalCalories = Fin (- 500), totalProtein = Fin (- 30)\<rparr>]
   \<and> \<not> nonNegative (Fin (- 500)) \<and> \<not> nonNegative (Fin (- 30))"
  by (simp add: post_api_meals_def isNaN_def Number_date_20240115 Day_findOneAndUpdate_def)

text \<open>
  C5, amended. If every Add-meal request that the handler accepts has \<open>calories\<close> and
  \<open>protein\<close> that coerce to numbers that are not negative, then in the store reached from the
  empty store by any sequence of requests every DayRecord has \<open>totalCalories \<ge> 0\<close> and
  \<open>totalProtein \<ge> 0\<close>.
\<close>

theorem totals_non_negative:
  assumes "\<forall>q \<in> set qs. nonNegativeMeal (snd q)"
  shows "\<forall>r \<in> set (run [] qs). nonNegative (totalCalories r) \<and> nonNegative (totalProtein r)"
proof -
  have "totalsNonNegative []"
    by (simp add: totalsNonNegative_def)
  with assms have "totalsNonNegative (run [] qs)"
    by (intro run_totalsNonNegative)
  then show ?thesis
    by (simp add: totalsNonNegative_def)
qed

theorem totals_non_negative_witness:
  "nonNegativeMeal (POST_meals \<lparr>calories = JNumber (Fin 500), protein = JNumber (Fin 30),
                                 reqdate = Some ''20240115''\<rparr>)
   \<and> nonNegativeMeal (POST_meals \<lparr>calories = JString ''200'', protein = JString ''10'',
                                   reqdate = Some ''20240115''\<rparr>)
   \<and> nonNegativeMeal (PUT_reset \<lparr>calories = JUndefined, protein = JUndefined,
                                  reqdate = Some ''20240116''\<rparr>)
   \<and> run []
        [(True, POST_meals \<lparr>calories = JNumber (Fin 500), protein = JNumber (Fin 30),
                            reqdate = Some ''20240115''\<rparr>),
         (True, POST_meals \<lparr>calories = JString ''200'', protein = JString ''10'',
                            reqdate = Some ''20240115''\<rparr>),
         (True, PUT_reset \<lparr>calories = JUndefined, protein = JUndefined,
                           reqdate = Some ''20240116''\<rparr>)]
      = [\<lparr>date = ''20240115'', totalCalories = Fin 700, totalProtein = Fin 40\<rparr>,
         \<lparr>date = ''20240116'', totalCalories = Fin 0, totalProtein = Fin 0\<rparr>]
   \<and> nonNegative (Fin 700) \<and> nonNegative (Fin 40) \<and> nonNegative (Fin 0)"
proof -
  let ?qs = "[(True, POST_meals \<lparr>calories = JNumber (Fin 500), protein = JNumber (Fin 30),
                                 reqdate = Some ''20240115''\<rparr>),
              (True, POST_meals \<lparr>calories = JString ''200'', protein = JString ''10'',
                                 reqdate = Some ''20240115''\<rparr>),
              (True, PUT_reset \<lparr>calories = JUndefined, protein = JUndefined,
                                reqdate = Some ''20240116''\<rparr>)]"
  have hyp: "\<forall>q \<in> set ?qs. nonNegativeMeal (snd q)"
    by (simp add: mealAccepted_def isNaN_def Number_date_20240115 Number_string_examples)
  have res: "run [] ?qs
      = [\<lparr>date = ''20240115'', totalCalories = Fin 700, totalProtein = Fin 40\<rparr>,
         \<lparr>date = ''20240116'', totalCalories = Fin 0, totalProtein = Fin 0\<rparr>]"
    by (simp add: post_api_meals_def put_api_days_reset_def isNaN_def Day_findOneAndUpdate_def
          Number_date_20240115 Number_string_examples)
  from totals_non_negative [OF hyp]
  have "nonNegative (Fin 700) \<and> nonNegative (Fin 40) \<and> nonNegative (Fin 0)"
    unfolding res by simp
  with hyp res show ?thesis
    by simp
qed

subsection \<open>Numbers given as strings\<close>

text \<open>
  C10, as stated, fails: the string \<open>"0"\<close> is a non-empty numeric string and is accepted,
  with increment 0, while the number 0 is falsy and is rejected with 400.
\<close>

theorem numeric_string_counterexample:
  "post_api_meals True []
     \<lparr>calories = JString ''0'', protein = JString ''30'', reqdate = Some ''20240115''\<rparr>
     = ([\<lparr>date = ''20240115'', totalCalories = Fin 0, totalProtein = Fin 30\<rparr>],
        Response 200 (Doc \<lparr>date = ''20240115'', totalCalories = Fin 0, totalProtein = Fin 30\<rparr>))
   \<and> post_api_meals True []
     \<lparr>calories = JNumber (Fin 0), protein = JNumber (Fin 30), reqdate = Some ''20240115''\<rparr>
     = ([], Response 400
          (Message ''Invalid input. Please provide numeric values for calories and protein.''))"
proof -
  have "StringToNumber ''0'' = Fin 0" "StringToNumber ''30'' = Fin 30"
    by (simp_all add: StringToNumber_eval)
  then show ?thesis
    by (simp add: post_api_meals_def isNaN_def Number_date_20240115 Day_findOneAndUpdate_def)
qed

text \<open>
  C10, amended. For an Add-meal request whose date passes the check of the handler and whose
  \<open>calories\<close> and \<open>protein\<close> are non-empty strings that coerce to numbers, validation
  passes and the increments are \<open>Number(calories)\<close> and \<open>Number(protein)\<close>, the doubles
  nearest to the literals. When neither of the two numbers is 0 (as the number of \<open>"0"\<close> or
  of \<open>"1e-400"\<close> is), the request with the numbers in place of the strings has the same
  outcome.
\<close>

theorem numeric_strings_accepted:
  assumes strs: "cs \<noteq> []" "ps \<noteq> []" "StringToNumber cs \<noteq> NaN" "StringToNumber ps \<noteq> NaN"
    and dat: "d \<noteq> []" "StringToNumber d \<noteq> NaN"
  shows "post_api_meals True db \<lparr>calories = JString cs, protein = JString ps, reqdate = Some d\<rparr>
      = (fst (findOneAndUpdate d (Inc (StringToNumber cs) (StringToNumber ps)) db),
         Response 200
           (Doc (snd (findOneAndUpdate d (Inc (StringToNumber cs) (StringToNumber ps)) db))))
    \<and> (StringToNumber cs \<noteq> Fin 0 \<and> StringToNumber ps \<noteq> Fin 0 \<longrightarrow>
         post_api_meals up db
           \<lparr>calories = JNumber (StringToNumber cs), protein = JNumber (StringToNumber ps),
            reqdate = Some d\<rparr>
         = post_api_meals up db
             \<lparr>calories = JString cs, protein = JString ps, reqdate = Some d\<rparr>)"
  using assms
  by (simp add: post_api_meals_def isNaN_def Let_def Day_findOneAndUpdate_def
        asDouble_StringToNumber split: prod.splits)

theorem numeric_strings_accepted_witness:
  "''500'' \<noteq> [] \<and> ''30'' \<noteq> [] \<and> StringToNumber ''500'' \<noteq> NaN \<and> StringToNumber ''30'' \<noteq> NaN
   \<and> ''20240115'' \<noteq> [] \<and> StringToNumber ''20240115'' \<noteq> NaN
   \<and> StringToNumber ''500'' \<noteq> Fin 0 \<and> StringToNumber ''30'' \<noteq> Fin 0
   \<and> post_api_meals True []
        \<lparr>calories = JString ''500'', protein = JString ''30'', reqdate = Some ''20240115''\<rparr>
      = ([\<lparr>date = ''20240115'', totalCalories = Fin 500, totalProtein = Fin 30\<rparr>],
         Response 200 (Doc \<lparr>date = ''20240115'', totalCalories = Fin 500, totalProtein = Fin 30\<rparr>))
   \<and> post_api_meals True []
        \<lparr>calories = JNumber (Fin 500), protein = JNumber (Fin 30), reqdate = Some ''20240115''\<rparr>
      = ([\<lparr>date = ''20240115'', totalCalories = Fin 500, totalProtein = Fin 30\<rparr>],
         Response 200 (Doc \<lparr>date = ''20240115'', totalCalories = Fin 500, totalProtein = Fin 30\<rparr>))"
  using numeric_strings_accepted [of "''500''" "''30''" "''20240115''" "[]" True]
  by (simp add: Number_string_examples Number_date_20240115)

end
